theory Spec2Isabelle
  imports Complex_Main "HOL-Library.Sublist"
begin

section \<open>Resume analysis bot: a shallow embedding of resume_analysis_bot.py\<close>

text \<open>
  The program is a linear pipeline: check that the path exists, extract the text of the
  PDF, print a preview, render a prompt, post it to the LM Studio server, print the
  reply, then loop over follow-up questions read from standard input.

  A Python \<open>str\<close> is modelled as \<open>string\<close>, one \<open>char\<close> per character (code points
  U+0000 to U+00FF); the literals of the source are ASCII. Everything the program gets
  from outside (the file system, the PDF library, the HTTP server, standard input) is a
  parameter of the model, and everything it does to the outside (printing, prompting for
  input, posting a request) is an event of the run.
\<close>

subsection \<open>Python values and exceptions\<close>

text \<open>
  The value \<open>response.json()\<close> returns. An object is the parsed \<open>dict\<close>, as the list
  of its items; a key is looked up with \<open>map_of\<close>. Numbers pass through unchanged.
\<close>

datatype json =
    JNull
  | JBool bool
  | JNum rat
  | JStr string
  | JArr "json list"
  | JObj "(string \<times> json) list"

text \<open>
  The exceptions that can leave the functions below. \<open>Unmodelled\<close> is not a Python
  exception: it marks the part of \<open>str.format\<close> (conversions, format specifications,
  attribute and index lookups) that the templates of the source do not use and that
  \<open>fmt\<close> below does not interpret.
\<close>

datatype py_error =
    AttributeError
  | IndexError
  | KeyError
  | TypeError
  | ValueError
  | JSONDecodeError
  | EOFError
  | Unmodelled

text \<open>\<open>d.get(k, default)\<close>: only a \<open>dict\<close> has the method.\<close>

definition dict_get :: "json \<Rightarrow> string \<Rightarrow> json \<Rightarrow> py_error + json" where
  "dict_get d k dflt =
     (case d of
        JObj items \<Rightarrow> (case map_of items k of Some v \<Rightarrow> Inr v | None \<Rightarrow> Inr dflt)
      | _ \<Rightarrow> Inl AttributeError)"

text \<open>
  \<open>v[0]\<close>: the first element of a list or the first character of a string, IndexError
  when there is none; a dict parsed from JSON has string keys only, so the key \<open>0\<close> is
  missing; \<open>None\<close>, booleans and numbers are not subscriptable.
\<close>

definition subscript0 :: "json \<Rightarrow> py_error + json" where
  "subscript0 v =
     (case v of
        JArr xs \<Rightarrow> (case xs of [] \<Rightarrow> Inl IndexError | x # _ \<Rightarrow> Inr x)
      | JStr s \<Rightarrow> (case s of [] \<Rightarrow> Inl IndexError | c # _ \<Rightarrow> Inr (JStr [c]))
      | JObj _ \<Rightarrow> Inl KeyError
      | _ \<Rightarrow> Inl TypeError)"

text \<open>Sequencing of steps that may raise: the first exception ends the computation.\<close>

definition and_then :: "py_error + 'a \<Rightarrow> ('a \<Rightarrow> py_error + 'b) \<Rightarrow> py_error + 'b" where
  "and_then r f = (case r of Inl e \<Rightarrow> Inl e | Inr v \<Rightarrow> f v)"

subsection \<open>String methods\<close>

text \<open>
  \<open>str.isspace\<close> on one character, for the code points below U+0100: tab to carriage
  return, the four separators U+001C to U+001F, space, NEL and no-break space.
\<close>

definition isspace :: "char \<Rightarrow> bool" where
  "isspace c \<longleftrightarrow>
     c \<in> set [CHR 0x09, CHR 0x0A, CHR 0x0B, CHR 0x0C, CHR 0x0D,
              CHR 0x1C, CHR 0x1D, CHR 0x1E, CHR 0x1F, CHR 0x20, CHR 0x85, CHR 0xA0]"

text \<open>\<open>s.strip()\<close>: leading and trailing whitespace removed.\<close>

definition strip :: "string \<Rightarrow> string" where
  "strip s = rev (dropWhile isspace (rev (dropWhile isspace s)))"

text \<open>\<open>s.strip('"')\<close>: leading and trailing double quotes removed.\<close>

definition strip_quotes :: "string \<Rightarrow> string" where
  "strip_quotes s =
     rev (dropWhile (\<lambda>c. c = CHR 0x22) (rev (dropWhile (\<lambda>c. c = CHR 0x22) s)))"

text \<open>
  \<open>s.lower()\<close>: A to Z, and the upper-case letters U+00C0 to U+00DE (without the
  multiplication sign U+00D7), move up by 32.
\<close>

definition lower_char :: "char \<Rightarrow> char" where
  "lower_char c =
     (let n = of_char c :: nat in
      if (65 \<le> n \<and> n \<le> 90) \<or> (192 \<le> n \<and> n \<le> 222 \<and> n \<noteq> 215)
      then char_of (n + 32) else c)"

definition lower :: "string \<Rightarrow> string" where
  "lower s = map lower_char s"

subsection \<open>Prompt templates\<close>

text \<open>
  A \<open>PromptTemplate\<close> holds its input variables and an f-string style template;
  \<open>format\<close> hands the template and the keyword arguments to \<open>str.format\<close>.
  \<open>fmt\<close> reads the template from left to right: \<open>{{\<close> and \<open>}}\<close> are literal braces,
  \<open>{name}\<close> is replaced by the argument of that name, unchanged. A lone brace is a
  ValueError, a missing argument a KeyError, \<open>{}\<close> with no positional argument an
  IndexError.
\<close>

record PromptTemplate =
  input_variables :: "string list"
  template :: string

datatype fmt_state = Text | Opened | Field string | Closed

definition emit :: "string \<Rightarrow> py_error + string \<Rightarrow> py_error + string" where
  "emit s r = (case r of Inl e \<Rightarrow> Inl e | Inr out \<Rightarrow> Inr (s @ out))"

fun fmt :: "(string \<times> string) list \<Rightarrow> fmt_state \<Rightarrow> string \<Rightarrow> py_error + string" where
  "fmt kwargs Text [] = Inr []"
| "fmt kwargs Opened [] = Inl ValueError"
| "fmt kwargs (Field name) [] = Inl ValueError"
| "fmt kwargs Closed [] = Inl ValueError"
| "fmt kwargs Text (c # cs) =
     (if c = CHR ''{'' then fmt kwargs Opened cs
      else if c = CHR ''}'' then fmt kwargs Closed cs
      else emit [c] (fmt kwargs Text cs))"
| "fmt kwargs Opened (c # cs) =
     (if c = CHR ''{'' then emit ''{'' (fmt kwargs Text cs)
      else if c = CHR ''}'' then Inl IndexError
      else if c \<in> set ''!:.['' then Inl Unmodelled
      else fmt kwargs (Field [c]) cs)"
| "fmt kwargs (Field name) (c # cs) =
     (if c = CHR ''}'' then
        (case map_of kwargs name of
           None \<Rightarrow> Inl KeyError
         | Some v \<Rightarrow> emit v (fmt kwargs Text cs))
      else if c \<in> set ''!:.[{'' then Inl Unmodelled
      else fmt kwargs (Field (name @ [c])) cs)"
| "fmt kwargs Closed (c # cs) =
     (if c = CHR ''}'' then emit ''}'' (fmt kwargs Text cs) else Inl ValueError)"

definition format_prompt :: "PromptTemplate \<Rightarrow> (string \<times> string) list \<Rightarrow> py_error + string" where
  "format_prompt t kwargs = fmt kwargs Text (template t)"

text \<open>The template of the initial analysis (lines 121 to 131).\<close>

definition resume_prompt :: PromptTemplate where
  "resume_prompt =
     \<lparr>input_variables = [''resume_text''],
      template =
        ''You are a seasoned career advisor and resume expert. Analyze the resume provided below and perform the following tasks:\<newline>'' @
        ''1. Identify the candidate's key skills and competencies.\<newline>'' @
        ''2. Highlight the strengths and areas for improvement in the resume.\<newline>'' @
        ''3. Provide actionable suggestions for formatting, content, and clarity enhancements.\<newline>\<newline>'' @
        ''Resume:\<newline>{resume_text}\<newline>\<newline>'' @
        ''Please provide your analysis in a clear and concise manner.''\<rparr>"

text \<open>The template of a follow-up round (lines 147 to 155).\<close>

definition followup_template :: PromptTemplate where
  "followup_template =
     \<lparr>input_variables = [''analysis'', ''question''],
      template =
        ''You are a seasoned career advisor and resume expert. The following is the previous analysis of a candidate's resume:\<newline>'' @
        ''{analysis}\<newline>\<newline>'' @
        ''Now, the candidate has a follow-up question: {question}\<newline>\<newline>'' @
        ''Please provide detailed, actionable suggestions on how to improve the resume based on this question.''\<rparr>"

text \<open>Line 134: \<open>resume_prompt.format(resume_text=resume_text)\<close>.\<close>

definition buildAnalysisPrompt :: "string \<Rightarrow> py_error + string" where
  "buildAnalysisPrompt resume_text = format_prompt resume_prompt [(''resume_text'', resume_text)]"

text \<open>Line 165: \<open>followup_template.format(analysis=feedback, question=question)\<close>.\<close>

definition buildFollowupPrompt :: "string \<Rightarrow> string \<Rightarrow> py_error + string" where
  "buildFollowupPrompt analysis question =
     format_prompt followup_template [(''analysis'', analysis), (''question'', question)]"

text \<open>Line 117: the preview of the extracted text.\<close>

definition preview :: "string \<Rightarrow> string" where
  "preview resume_text =
     (if length resume_text > 500 then take 500 resume_text @ ''...'' else resume_text)"

subsection \<open>The HTTP exchange\<close>

record message =
  role :: string
  content :: string

record payload =
  model :: string
  messages :: "message list"
  temperature :: rat
  max_tokens :: nat
  stream :: bool

record request =
  url :: string
  headers :: "(string \<times> string) list"
  body :: payload

text \<open>
  What \<open>requests.post\<close> gives back: it raises a \<open>RequestException\<close> (connection refused,
  timeout, DNS failure, ...) whose text is the argument, or it returns a response with a
  status code, the reason phrase, the URL answered from and the body, \<open>None\<close> when the
  body is not JSON.
\<close>

record response =
  status_code :: nat
  reason :: string
  response_url :: string
  json_body :: "json option"

datatype http_outcome = RequestException string | Response response

text \<open>Decimal digits of a number, for the status code in the text of an HTTPError.\<close>

fun decimal :: "nat \<Rightarrow> string" where
  "decimal n =
     (if n < 10 then [''0123456789'' ! n]
      else decimal (n div 10) @ [''0123456789'' ! (n mod 10)])"

text \<open>
  \<open>response.raise_for_status()\<close> of the requests library: an \<open>HTTPError\<close> (a
  \<open>RequestException\<close>) for a status from 400 to 599, with the text below; nothing for
  any other status.
\<close>

definition raise_for_status :: "response \<Rightarrow> string option" where
  "raise_for_status r =
     (if 400 \<le> status_code r \<and> status_code r < 500 then
        Some (decimal (status_code r) @ '' Client Error: '' @ reason r @ '' for url: '' @ response_url r)
      else if 500 \<le> status_code r \<and> status_code r < 600 then
        Some (decimal (status_code r) @ '' Server Error: '' @ reason r @ '' for url: '' @ response_url r)
      else None)"

text \<open>\<open>response.json()\<close>: the parsed body, or JSONDecodeError.\<close>

definition decode_json :: "response \<Rightarrow> py_error + json" where
  "decode_json r = (case json_body r of None \<Rightarrow> Inl JSONDecodeError | Some j \<Rightarrow> Inr j)"

subsection \<open>CustomLLM\<close>

record CustomLLM =
  api_url :: string
  model_name :: string
  llm_temperature :: rat

text \<open>Lines 52 to 62 and the arguments of \<open>requests.post\<close> in line 64.\<close>

definition build_request :: "CustomLLM \<Rightarrow> string \<Rightarrow> request" where
  "build_request self prompt =
     \<lparr>url = api_url self,
      headers = [(''Content-Type'', ''application/json'')],
      body =
        \<lparr>model = model_name self,
         messages =
           [\<lparr>role = ''system'', content = ''You are a seasoned career advisor and resume expert.''\<rparr>,
            \<lparr>role = ''user'', content = prompt\<rparr>],
         temperature = llm_temperature self,
         max_tokens = 1000,
         stream = False\<rparr>\<rparr>"

text \<open>
  Line 71:
  \<open>response_json.get('choices', [{}])[0].get('message', {}).get('content', "No valid response.")\<close>.
\<close>

definition extract_content :: "json \<Rightarrow> py_error + json" where
  "extract_content response_json =
     and_then (dict_get response_json ''choices'' (JArr [JObj []])) (\<lambda>choices.
     and_then (subscript0 choices) (\<lambda>choice.
     and_then (dict_get choice ''message'' (JObj [])) (\<lambda>msg.
     dict_get msg ''content'' (JStr ''No valid response.''))))"

text \<open>
  Lines 63 to 71, from the outcome of the post on: a \<open>RequestException\<close> of the post or
  of \<open>raise_for_status\<close> is caught and turned into a string; everything after the
  \<open>try\<close> block can raise.
\<close>

definition handle_outcome :: "http_outcome \<Rightarrow> py_error + json" where
  "handle_outcome out =
     (case out of
        RequestException e \<Rightarrow> Inr (JStr (''Network or request error: '' @ e))
      | Response r \<Rightarrow>
          (case raise_for_status r of
             Some e \<Rightarrow> Inr (JStr (''Network or request error: '' @ e))
           | None \<Rightarrow> and_then (decode_json r) extract_content))"

subsection \<open>The world and the run\<close>

text \<open>
  The world around the program: which paths exist, what \<open>pdfminer\<close>'s \<open>extract_text\<close>
  does on a path (\<open>Inl\<close> the text of the exception it raises, \<open>Inr\<close> the text of the
  document), what the server does on the request number \<open>k\<close> (counted from 0), and
  \<open>str\<close> on a value that is not a string.
\<close>

record world =
  path_exists :: "string \<Rightarrow> bool"
  extract_text :: "string \<Rightarrow> string + string"
  post :: "nat \<Rightarrow> request \<Rightarrow> http_outcome"
  str_of :: "json \<Rightarrow> string"

datatype event = Print string | Input string | HttpPost request

text \<open>
  The outcome of a run: the events in order, the value of the variable \<open>feedback\<close> at
  the end (\<open>None\<close> when it was never assigned) and the exception that ended the run, if
  one did.
\<close>

record run =
  events :: "event list"
  stored :: "json option"
  raised :: "py_error option"

definition after :: "event list \<Rightarrow> run \<Rightarrow> run" where
  "after es r = r\<lparr>events := es @ events r\<rparr>"

text \<open>\<open>str(v)\<close>, as \<open>print\<close> and \<open>format\<close> apply it: a string is itself.\<close>

definition py_str :: "world \<Rightarrow> json \<Rightarrow> string" where
  "py_str w v = (case v of JStr s \<Rightarrow> s | _ \<Rightarrow> str_of w v)"

text \<open>\<open>CustomLLM._call\<close> as request number \<open>k\<close>: the request posted and the result.\<close>

definition CustomLLM_call :: "world \<Rightarrow> nat \<Rightarrow> CustomLLM \<Rightarrow> string \<Rightarrow> request \<times> (py_error + json)" where
  "CustomLLM_call w k self prompt =
     (let req = build_request self prompt in (req, handle_outcome (post w k req)))"

definition extract_text_from_pdf :: "world \<Rightarrow> string \<Rightarrow> string + string" where
  "extract_text_from_pdf w pdf_path = extract_text w pdf_path"

definition ask_followup :: string where
  "ask_followup = ''\<newline>Would you like to ask a follow-up question regarding resume improvements? (yes/no): ''"

definition ask_question :: string where
  "ask_question = ''Enter your follow-up question: ''"

text \<open>
  The loop of lines 157 to 169, on the lines standard input still holds; \<open>input\<close> raises
  EOFError when there is none. \<open>k\<close> is the number of requests posted so far.
\<close>

fun followup_loop :: "world \<Rightarrow> CustomLLM \<Rightarrow> json \<Rightarrow> nat \<Rightarrow> string list \<Rightarrow> run" where
  "followup_loop w llm feedback k [] =
     \<lparr>events = [Input ask_followup], stored = Some feedback, raised = Some EOFError\<rparr>"
| "followup_loop w llm feedback k (line # rest) =
     (if lower (strip line) \<notin> set [''yes'', ''y''] then
        \<lparr>events = [Input ask_followup], stored = Some feedback, raised = None\<rparr>
      else
        (case rest of
           [] \<Rightarrow>
             \<lparr>events = [Input ask_followup, Input ask_question],
              stored = Some feedback, raised = Some EOFError\<rparr>
         | line2 # rest2 \<Rightarrow>
             (if strip line2 = [] then
                \<lparr>events = [Input ask_followup, Input ask_question,
                           Print ''No question entered. Exiting follow-up.''],
                 stored = Some feedback, raised = None\<rparr>
              else
                (case buildFollowupPrompt (py_str w feedback) (strip line2) of
                   Inl e \<Rightarrow>
                     \<lparr>events = [Input ask_followup, Input ask_question],
                      stored = Some feedback, raised = Some e\<rparr>
                 | Inr formatted_followup \<Rightarrow>
                     (case CustomLLM_call w k llm formatted_followup of
                        (req, Inl e) \<Rightarrow>
                          \<lparr>events = [Input ask_followup, Input ask_question,
                                     Print ''\<newline>Processing your follow-up question...\<newline>'',
                                     HttpPost req],
                           stored = Some feedback, raised = Some e\<rparr>
                      | (req, Inr followup_response) \<Rightarrow>
                          after [Input ask_followup, Input ask_question,
                                 Print ''\<newline>Processing your follow-up question...\<newline>'',
                                 HttpPost req,
                                 Print ''Follow-Up Advice:\<newline>'',
                                 Print (py_str w followup_response)]
                            (followup_loop w llm feedback (Suc k) rest2))))))"

text \<open>\<open>run_analysis\<close>, lines 91 to 169.\<close>

definition run_analysis :: "world \<Rightarrow> string list \<Rightarrow> string \<Rightarrow> string \<Rightarrow> string \<Rightarrow> run" where
  "run_analysis w stdin api_url' model_name' pdf_path =
     (if \<not> path_exists w pdf_path then
        \<lparr>events = [Print (''File not found: '' @ pdf_path)], stored = None, raised = None\<rparr>
      else
        (case extract_text_from_pdf w pdf_path of
           Inl e \<Rightarrow>
             \<lparr>events = [Print (''Error extracting text from PDF: '' @ e)],
              stored = None, raised = None\<rparr>
         | Inr resume_text \<Rightarrow>
             (if strip resume_text = [] then
                \<lparr>events = [Print ''No text extracted from PDF.''], stored = None, raised = None\<rparr>
              else
                (case buildAnalysisPrompt resume_text of
                   Inl e \<Rightarrow>
                     \<lparr>events = [Print ''\<newline>Extracted Resume Text Preview:\<newline>'',
                                Print (preview resume_text)],
                      stored = None, raised = Some e\<rparr>
                 | Inr formatted_prompt \<Rightarrow>
                     (let llm = \<lparr>api_url = api_url', model_name = model_name',
                                 llm_temperature = 7 / 10\<rparr>
                      in case CustomLLM_call w 0 llm formatted_prompt of
                           (req, Inl e) \<Rightarrow>
                             \<lparr>events = [Print ''\<newline>Extracted Resume Text Preview:\<newline>'',
                                        Print (preview resume_text),
                                        Print ''\<newline>Analyzing resume with the language model...\<newline>'',
                                        HttpPost req],
                              stored = None, raised = Some e\<rparr>
                         | (req, Inr feedback) \<Rightarrow>
                             after [Print ''\<newline>Extracted Resume Text Preview:\<newline>'',
                                    Print (preview resume_text),
                                    Print ''\<newline>Analyzing resume with the language model...\<newline>'',
                                    HttpPost req,
                                    Print ''Model Feedback:\<newline>'',
                                    Print (py_str w feedback)]
                               (followup_loop w llm feedback 1 stdin))))))"

text \<open>\<open>main\<close>, lines 172 to 187: the path is the first line of standard input.\<close>

definition main :: "world \<Rightarrow> string list \<Rightarrow> run" where
  "main w stdin =
     (case stdin of
        [] \<Rightarrow> \<lparr>events = [Input ''Enter the path to the resume PDF: ''],
               stored = None, raised = Some EOFError\<rparr>
      | line # rest \<Rightarrow>
          after [Input ''Enter the path to the resume PDF: '']
            (run_analysis w rest ''http://localhost:1234/v1/chat/completions''
               ''mistral-nemo-instruct-2407'' (strip_quotes (strip line))))"

text \<open>Observers of a run: the requests posted, and the user prompt of each.\<close>

fun posted :: "event list \<Rightarrow> request list" where
  "posted [] = []"
| "posted (HttpPost req # es) = req # posted es"
| "posted (_ # es) = posted es"

definition user_prompt :: "request \<Rightarrow> string list" where
  "user_prompt req = map content (filter (\<lambda>m. role m = ''user'') (messages (body req)))"

definition prompts_sent :: "run \<Rightarrow> string list" where
  "prompts_sent r = concat (map user_prompt (posted (events r)))"

subsection \<open>Example worlds\<close>

text \<open>
  A server reply of the expected shape, and a world in which \<open>resume.pdf\<close> is the
  only path, the PDF library extracts the given text and the server answers the request
  number \<open>k\<close> with the \<open>k\<close>-th outcome of a script (and refuses the connection
  after its end).
\<close>

definition chat_reply :: "string \<Rightarrow> http_outcome" where
  "chat_reply s =
     Response \<lparr>status_code = 200, reason = ''OK'',
               response_url = ''http://localhost:1234/v1/chat/completions'',
               json_body = Some (JObj [(''choices'',
                 JArr [JObj [(''message'',
                   JObj [(''role'', JStr ''assistant''), (''content'', JStr s)])]])])\<rparr>"

definition scripted_world :: "string \<Rightarrow> http_outcome list \<Rightarrow> world" where
  "scripted_world text outs =
     \<lparr>path_exists = (\<lambda>p. p = ''resume.pdf''),
      extract_text = (\<lambda>p. Inr text),
      post = (\<lambda>k req. if k < length outs then outs ! k
                       else RequestException ''Connection refused''),
      str_of = (\<lambda>v. ''None'')\<rparr>"

definition local_llm :: CustomLLM where
  "local_llm =
     \<lparr>api_url = ''http://localhost:1234/v1/chat/completions'',
      model_name = ''mistral-nemo-instruct-2407'',
      llm_temperature = 7 / 10\<rparr>"

definition demo_world :: world where
  "demo_world =
     scripted_world ''Jane Doe, software engineer''
       [chat_reply ''Solid experience section.'',
        chat_reply ''Open the summary with your strongest result.'',
        chat_reply ''List Python and SQL first.'']"

text \<open>Two follow-up rounds, then \<open>no\<close>.\<close>

definition demo_session :: run where
  "demo_session =
     run_analysis demo_world
       [''yes'', ''How do I improve my summary?'', ''yes'', ''Which skills should I add?'', ''no'']
       ''http://localhost:1234/v1/chat/completions'' ''mistral-nemo-instruct-2407''
       ''resume.pdf''"

text \<open>The server is down for the first request and up for the second.\<close>

definition offline_world :: world where
  "offline_world =
     scripted_world ''Jane Doe, software engineer''
       [RequestException ''Connection refused'', chat_reply ''Start with a summary.'']"

definition offline_session :: run where
  "offline_session =
     run_analysis offline_world
       [''yes'', ''How do I improve my summary?'', ''no'']
       ''http://localhost:1234/v1/chat/completions'' ''mistral-nemo-instruct-2407''
       ''resume.pdf''"

subsection \<open>What the templates render to\<close>

text \<open>
  The texts the two templates render to, written out; \<open>buildAnalysisPrompt_eq\<close> and
  \<open>buildFollowupPrompt_eq\<close> below derive them from \<open>fmt\<close>.
\<close>

definition rendered_analysis :: "string \<Rightarrow> string" where
  "rendered_analysis resume_text =
     (''You are a seasoned career advisor and resume expert. Analyze the resume provided below and perform the following tasks:\<newline>'' @
      ''1. Identify the candidate's key skills and competencies.\<newline>'' @
      ''2. Highlight the strengths and areas for improvement in the resume.\<newline>'' @
      ''3. Provide actionable suggestions for formatting, content, and clarity enhancements.\<newline>\<newline>'' @
      ''Resume:\<newline>'') @
     resume_text @
     (''\<newline>\<newline>'' @
      ''Please provide your analysis in a clear and concise manner.'')"

definition rendered_followup :: "string \<Rightarrow> string \<Rightarrow> string" where
  "rendered_followup analysis question =
     ''You are a seasoned career advisor and resume expert. The following is the previous analysis of a candidate's resume:\<newline>'' @
     analysis @
     (''\<newline>\<newline>'' @
      ''Now, the candidate has a follow-up question: '' @
      question @
      ''\<newline>\<newline>'' @
      ''Please provide detailed, actionable suggestions on how to improve the resume based on this question.'')"

subsection \<open>The preview\<close>

text \<open>
  C4 (as amended): a text of at most 500 characters is previewed unchanged, with no
  ellipsis; a text of more than 500 characters is previewed as its first 500 characters
  followed by three dots.
\<close>

theorem preview_bounded:
  "(length t \<le> 500 \<longrightarrow> preview t = t) \<and>
   (500 < length t \<longrightarrow> preview t = take 500 t @ ''...'')"
  by (simp add: preview_def)

theorem preview_bounded_witness:
  "length ''Jane Doe'' \<le> 500 \<and> preview ''Jane Doe'' = ''Jane Doe'' \<and>
   500 < length (replicate 501 CHR ''a'') \<and>
   preview (replicate 501 CHR ''a'') = take 500 (replicate 501 CHR ''a'') @ ''...''"
  using preview_bounded [of "''Jane Doe''"] preview_bounded [of "replicate 501 CHR ''a''"]
  by simp

text \<open>
  C4 (as stated) fails at a text of exactly 500 characters: the claim puts an ellipsis
  after it, the program prints it unchanged.
\<close>

theorem preview_500_counterexample:
  "length (replicate 500 CHR ''a'') \<ge> 500 \<and>
   preview (replicate 500 CHR ''a'') = replicate 500 CHR ''a'' \<and>
   preview (replicate 500 CHR ''a'') \<noteq> take 500 (replicate 500 CHR ''a'') @ ''...''"
  by (simp add: preview_def)

subsection \<open>The prompts\<close>

lemma buildAnalysisPrompt_eq: "buildAnalysisPrompt t = Inr (rendered_analysis t)"
  by (simp add: buildAnalysisPrompt_def format_prompt_def resume_prompt_def emit_def
        rendered_analysis_def)

lemma buildFollowupPrompt_eq: "buildFollowupPrompt a q = Inr (rendered_followup a q)"
  by (simp add: buildFollowupPrompt_def format_prompt_def followup_template_def emit_def
        rendered_followup_def)

lemma rendered_followup_embeds: "sublist a (rendered_followup a q)"
  unfolding rendered_followup_def by (rule sublist_appendI)

text \<open>
  C9: the analysis prompt is the resume text, unchanged, between a prefix and a suffix
  that do not depend on it, so two prompts differ only in the embedded text, and
  different texts give different prompts.
\<close>

theorem buildAnalysisPrompt_injective:
  "inj buildAnalysisPrompt \<and> (\<exists>pre suf. \<forall>t. buildAnalysisPrompt t = Inr (pre @ t @ suf))"
proof
  show "inj buildAnalysisPrompt"
    by (rule injI) (simp add: buildAnalysisPrompt_eq rendered_analysis_def)
  show "\<exists>pre suf. \<forall>t. buildAnalysisPrompt t = Inr (pre @ t @ suf)"
    unfolding buildAnalysisPrompt_eq rendered_analysis_def by blast
qed

theorem buildAnalysisPrompt_injective_witness:
  "buildAnalysisPrompt ''Jane Doe'' \<noteq> buildAnalysisPrompt ''John Roe''"
proof
  assume "buildAnalysisPrompt ''Jane Doe'' = buildAnalysisPrompt ''John Roe''"
  with buildAnalysisPrompt_injective have "''Jane Doe'' = ''John Roe''"
    by (blast dest: injD)
  then show False by simp
qed

subsection \<open>The reply of the server\<close>

lemma extract_content_defaults:
  "extract_content (JObj []) = Inr (JStr ''No valid response.'')"
  "extract_content (JObj [(''choices'', JArr [JObj []])]) = Inr (JStr ''No valid response.'')"
  "extract_content (JObj [(''choices'', JArr [JObj [(''message'', JObj [])]])]) =
     Inr (JStr ''No valid response.'')"
  by (simp_all add: extract_content_def dict_get_def subscript0_def and_then_def)

lemma extract_content_well_formed:
  assumes "map_of obj ''choices'' = Some (JArr (JObj choice # others))"
    and "map_of choice ''message'' = Some (JObj msg)"
    and "map_of msg ''content'' = Some (JStr c)"
  shows "extract_content (JObj obj) = Inr (JStr c)"
  using assms by (simp add: extract_content_def dict_get_def subscript0_def and_then_def)

lemma handle_chat_reply: "handle_outcome (chat_reply s) = Inr (JStr s)"
  by (simp add: chat_reply_def handle_outcome_def raise_for_status_def decode_json_def
        extract_content_def dict_get_def subscript0_def and_then_def)

lemma CustomLLM_call_eq:
  "CustomLLM_call w k llm p =
     (build_request llm p, handle_outcome (post w k (build_request llm p)))"
  by (simp add: CustomLLM_call_def Let_def)

text \<open>
  C3, at the body \<open>{"choices": []}\<close> of a response with status 200: the default
  \<open>[{}]\<close> of the first \<open>get\<close> is not used, because the key is there, and \<open>[0]\<close> on the
  empty list raises IndexError. No string is returned.
\<close>

theorem empty_choices_raises:
  "extract_content (JObj [(''choices'', JArr [])]) = Inl IndexError \<and>
   handle_outcome
     (Response \<lparr>status_code = 200, reason = ''OK'',
                response_url = ''http://localhost:1234/v1/chat/completions'',
                json_body = Some (JObj [(''choices'', JArr [])])\<rparr>) = Inl IndexError"
  by (simp add: handle_outcome_def raise_for_status_def decode_json_def extract_content_def
        dict_get_def subscript0_def and_then_def)

text \<open>
  C5: when the server answers with a status below 400 and a JSON object whose
  \<open>choices\<close> is a list that starts with an object, whose \<open>message\<close> is an object,
  whose \<open>content\<close> is the string \<open>c\<close>, then \<open>_call\<close> returns exactly \<open>c\<close>.
\<close>

theorem well_formed_reply_content:
  assumes "post w k (build_request llm prompt) = Response r"
    and "status_code r < 400"
    and "json_body r = Some (JObj obj)"
    and "map_of obj ''choices'' = Some (JArr (JObj choice # others))"
    and "map_of choice ''message'' = Some (JObj msg)"
    and "map_of msg ''content'' = Some (JStr c)"
  shows "snd (CustomLLM_call w k llm prompt) = Inr (JStr c) \<and> py_str w (JStr c) = c"
  using assms(1-3) extract_content_well_formed [OF assms(4-6)]
  by (simp add: CustomLLM_call_eq handle_outcome_def raise_for_status_def decode_json_def
        and_then_def py_str_def)

theorem well_formed_reply_content_witness:
  "snd (CustomLLM_call
          (scripted_world ''Jane Doe''
             [Response \<lparr>status_code = 200, reason = ''OK'',
                         response_url = ''http://localhost:1234/v1/chat/completions'',
                         json_body = Some (JObj [(''choices'',
                           JArr [JObj [(''message'', JObj [(''content'', JStr ''Great resume!'')])]])])\<rparr>])
          0 local_llm ''Analyze this resume.'') = Inr (JStr ''Great resume!'')"
  using well_formed_reply_content
    [of "scripted_world ''Jane Doe''
           [Response \<lparr>status_code = 200, reason = ''OK'',
                       response_url = ''http://localhost:1234/v1/chat/completions'',
                       json_body = Some (JObj [(''choices'',
                         JArr [JObj [(''message'', JObj [(''content'', JStr ''Great resume!'')])]])])\<rparr>]"
        0 local_llm "''Analyze this resume.''"
        "\<lparr>status_code = 200, reason = ''OK'',
          response_url = ''http://localhost:1234/v1/chat/completions'',
          json_body = Some (JObj [(''choices'',
            JArr [JObj [(''message'', JObj [(''content'', JStr ''Great resume!'')])]])])\<rparr>"
        "[(''choices'', JArr [JObj [(''message'', JObj [(''content'', JStr ''Great resume!'')])]])]"
        "[(''message'', JObj [(''content'', JStr ''Great resume!'')])]"
        "[]"
        "[(''content'', JStr ''Great resume!'')]"
        "''Great resume!''"]
  by (simp add: scripted_world_def)

text \<open>
  C6 (as amended): when the post raises a \<open>RequestException\<close> (connection refused,
  timeout, DNS failure), and when the response has a status from 400 to 599, \<open>_call\<close>
  returns the string "Network or request error: " followed by the text of the exception;
  it does not raise.
\<close>

theorem transport_failure_returns_string:
  "(post w k (build_request llm prompt) = RequestException e \<longrightarrow>
      snd (CustomLLM_call w k llm prompt) = Inr (JStr (''Network or request error: '' @ e))) \<and>
   (post w k (build_request llm prompt) = Response r \<and>
    400 \<le> status_code r \<and> status_code r < 600 \<longrightarrow>
      (\<exists>e'. raise_for_status r = Some e' \<and>
            snd (CustomLLM_call w k llm prompt) =
              Inr (JStr (''Network or request error: '' @ e'))))"
  by (auto simp add: CustomLLM_call_eq handle_outcome_def raise_for_status_def)

theorem transport_failure_returns_string_witness:
  "snd (CustomLLM_call (scripted_world ''Jane Doe'' [RequestException ''Connection refused''])
          0 local_llm ''Analyze this resume.'') =
     Inr (JStr ''Network or request error: Connection refused'') \<and>
   snd (CustomLLM_call
          (scripted_world ''Jane Doe''
             [Response \<lparr>status_code = 503, reason = ''Service Unavailable'',
                         response_url = ''http://localhost:1234/v1/chat/completions'',
                         json_body = None\<rparr>])
          0 local_llm ''Analyze this resume.'') =
     Inr (JStr (''Network or request error: 503 Server Error: Service Unavailable for url: '' @
                ''http://localhost:1234/v1/chat/completions''))"
  using transport_failure_returns_string
    [of "scripted_world ''Jane Doe'' [RequestException ''Connection refused'']"
        0 local_llm "''Analyze this resume.''" "''Connection refused''"]
    transport_failure_returns_string
    [of "scripted_world ''Jane Doe''
           [Response \<lparr>status_code = 503, reason = ''Service Unavailable'',
                       response_url = ''http://localhost:1234/v1/chat/completions'',
                       json_body = None\<rparr>]"
        0 local_llm "''Analyze this resume.''" _
        "\<lparr>status_code = 503, reason = ''Service Unavailable'',
          response_url = ''http://localhost:1234/v1/chat/completions'',
          json_body = None\<rparr>"]
  by (simp add: scripted_world_def raise_for_status_def)

text \<open>
  C6 (as stated) fails at a status that is not 2xx and not an error for
  \<open>raise_for_status\<close>: a response 304 whose body is not JSON passes the \<open>try\<close> block,
  and \<open>response.json()\<close> raises outside it.
\<close>

theorem status_304_counterexample:
  "\<not> (200 \<le> (304 :: nat) \<and> (304 :: nat) < 300) \<and>
   handle_outcome
     (Response \<lparr>status_code = 304, reason = ''Not Modified'',
                response_url = ''http://localhost:1234/v1/chat/completions'',
                json_body = None\<rparr>) = Inl JSONDecodeError"
  by (simp add: handle_outcome_def raise_for_status_def decode_json_def and_then_def)

subsection \<open>The session before the first request\<close>

text \<open>
  C7: for a path that does not exist, the run is the single line "File not found: "
  with the path; nothing is posted and nothing is raised.
\<close>

theorem missing_file_halts:
  "\<not> path_exists w pdf_path \<Longrightarrow>
   run_analysis w stdin u m pdf_path =
     \<lparr>events = [Print (''File not found: '' @ pdf_path)], stored = None, raised = None\<rparr> \<and>
   posted (events (run_analysis w stdin u m pdf_path)) = []"
  by (simp add: run_analysis_def)

theorem missing_file_halts_witness:
  "\<not> path_exists demo_world ''/no/such/file.pdf'' \<and>
   run_analysis demo_world [''yes''] ''http://localhost:1234/v1/chat/completions''
      ''mistral-nemo-instruct-2407'' ''/no/such/file.pdf'' =
     \<lparr>events = [Print ''File not found: /no/such/file.pdf''], stored = None, raised = None\<rparr>"
  using missing_file_halts [of demo_world "''/no/such/file.pdf''" "[''yes'']"
      "''http://localhost:1234/v1/chat/completions''" "''mistral-nemo-instruct-2407''"]
  by (simp add: demo_world_def scripted_world_def)

text \<open>
  C10: when the extracted text strips to the empty string, the run is the single line
  "No text extracted from PDF."; no prompt is built, nothing is posted and nothing is
  raised, whether the text itself is empty or not.
\<close>

theorem blank_text_halts:
  "path_exists w pdf_path \<Longrightarrow> extract_text w pdf_path = Inr t \<Longrightarrow> strip t = [] \<Longrightarrow>
   run_analysis w stdin u m pdf_path =
     \<lparr>events = [Print ''No text extracted from PDF.''], stored = None, raised = None\<rparr> \<and>
   posted (events (run_analysis w stdin u m pdf_path)) = []"
  by (simp add: run_analysis_def extract_text_from_pdf_def)

theorem blank_text_halts_witness:
  "'' \<newline>  '' \<noteq> [] \<and> strip '' \<newline>  '' = [] \<and>
   run_analysis (scripted_world '' \<newline>  '' []) [''yes'']
      ''http://localhost:1234/v1/chat/completions'' ''mistral-nemo-instruct-2407''
      ''resume.pdf'' =
     \<lparr>events = [Print ''No text extracted from PDF.''], stored = None, raised = None\<rparr>"
proof -
  have s: "strip '' \<newline>  '' = []"
    by (simp add: strip_def isspace_def)
  show ?thesis
    using s blank_text_halts [of "scripted_world '' \<newline>  '' []" "''resume.pdf''"
        "'' \<newline>  ''" "[''yes'']" "''http://localhost:1234/v1/chat/completions''"
        "''mistral-nemo-instruct-2407''"]
    by (simp add: scripted_world_def)
qed

subsection \<open>The follow-up loop\<close>

lemma stored_after: "stored (after es r) = stored r"
  by (simp add: after_def)

lemma events_after: "events (after es r) = es @ events r"
  by (simp add: after_def)

lemma posted_append: "posted (es @ fs) = posted es @ posted fs"
  by (induction es rule: posted.induct) simp_all

lemma user_prompt_build_request: "user_prompt (build_request llm p) = [p]"
  by (simp add: user_prompt_def build_request_def)

lemma prompts_sent_after:
  "prompts_sent (after es r) = concat (map user_prompt (posted es)) @ prompts_sent r"
  by (simp add: prompts_sent_def events_after posted_append)

lemma followup_stop:
  "lower (strip a) \<notin> set [''yes'', ''y''] \<Longrightarrow>
   followup_loop w llm fb k (a # rest) =
     \<lparr>events = [Input ask_followup], stored = Some fb, raised = None\<rparr>"
  by simp

lemma followup_round:
  assumes "lower (strip a) \<in> set [''yes'', ''y'']" and "strip q \<noteq> []"
    and "handle_outcome (post w k (build_request llm (rendered_followup (py_str w fb) (strip q)))) = Inr r"
  shows "followup_loop w llm fb k (a # q # rest) =
           after [Input ask_followup, Input ask_question,
                  Print ''\<newline>Processing your follow-up question...\<newline>'',
                  HttpPost (build_request llm (rendered_followup (py_str w fb) (strip q))),
                  Print ''Follow-Up Advice:\<newline>'',
                  Print (py_str w r)]
             (followup_loop w llm fb (Suc k) rest)"
  using assms by (simp add: CustomLLM_call_eq buildFollowupPrompt_eq)

lemma followup_loop_stored: "stored (followup_loop w llm fb k stdin) = Some fb"
proof (induction w llm fb k stdin rule: followup_loop.induct)
  case (1 w llm feedback k)
  show ?case by simp
next
  case (2 w llm feedback k line rest)
  then show ?case
    by (auto simp add: stored_after split: list.splits sum.splits prod.splits)
qed

lemma followup_loop_first_event:
  "\<exists>es. events (followup_loop w llm fb k stdin) = Input ask_followup # es"
  by (cases stdin)
    (auto simp add: events_after split: list.splits sum.splits prod.splits)

lemma followup_loop_prompts:
  "p \<in> set (prompts_sent (followup_loop w llm fb k stdin)) \<Longrightarrow>
   \<exists>q. p = rendered_followup (py_str w fb) q"
proof (induction w llm fb k stdin rule: followup_loop.induct)
  case (1 w llm feedback k)
  then show ?case by (simp add: prompts_sent_def)
next
  case (2 w llm feedback k line rest)
  show ?case
  proof (cases "lower (strip line) \<notin> set [''yes'', ''y'']")
    case True
    with 2(2) show ?thesis by (simp add: prompts_sent_def)
  next
    case yes: False
    show ?thesis
    proof (cases rest)
      case Nil
      with yes 2(2) show ?thesis by (simp add: prompts_sent_def)
    next
      case (Cons line2 rest2)
      show ?thesis
      proof (cases "strip line2 = []")
        case True
        with yes Cons 2(2) show ?thesis by (simp add: prompts_sent_def)
      next
        case q: False
        let ?fp = "rendered_followup (py_str w feedback) (strip line2)"
        have fp: "buildFollowupPrompt (py_str w feedback) (strip line2) = Inr ?fp"
          by (rule buildFollowupPrompt_eq)
        show ?thesis
        proof (cases "handle_outcome (post w k (build_request llm ?fp))")
          case (Inl e)
          with yes Cons q fp 2(2) have "p = ?fp"
            by (simp add: CustomLLM_call_eq prompts_sent_def user_prompt_build_request)
          then show ?thesis by blast
        next
          case (Inr r)
          with yes Cons q fp 2(2)
          have "p = ?fp \<or> p \<in> set (prompts_sent (followup_loop w llm feedback (Suc k) rest2))"
            by (auto simp add: CustomLLM_call_eq prompts_sent_after user_prompt_build_request)
          then show ?thesis
          proof
            assume "p = ?fp"
            then show ?thesis by blast
          next
            assume "p \<in> set (prompts_sent (followup_loop w llm feedback (Suc k) rest2))"
            then show ?thesis
              using 2(1) [OF yes Cons q fp _ Inr]
              by (simp add: CustomLLM_call_eq)
          qed
        qed
      qed
    qed
  qed
qed

lemma run_analysis_reaches_loop:
  assumes "path_exists w pdf_path" and "extract_text w pdf_path = Inr t" and "strip t \<noteq> []"
    and "handle_outcome (post w 0 (build_request
           \<lparr>api_url = u, model_name = m, llm_temperature = 7 / 10\<rparr> (rendered_analysis t))) = Inr fb"
  shows "run_analysis w stdin u m pdf_path =
           after [Print ''\<newline>Extracted Resume Text Preview:\<newline>'',
                  Print (preview t),
                  Print ''\<newline>Analyzing resume with the language model...\<newline>'',
                  HttpPost (build_request
                    \<lparr>api_url = u, model_name = m, llm_temperature = 7 / 10\<rparr> (rendered_analysis t)),
                  Print ''Model Feedback:\<newline>'',
                  Print (py_str w fb)]
             (followup_loop w \<lparr>api_url = u, model_name = m, llm_temperature = 7 / 10\<rparr> fb 1 stdin)"
  using assms
  by (simp add: run_analysis_def extract_text_from_pdf_def CustomLLM_call_eq Let_def
        buildAnalysisPrompt_eq)

lemma lower_answers:
  "lower ''yes'' = ''yes''" "lower ''YES'' = ''yes''" "lower ''Y'' = ''y''"
  "lower ''no'' = ''no''" "lower ''yes '' = ''yes ''"
  by code_simp+

lemma strip_answers:
  "strip ''yes'' = ''yes''" "strip ''YES'' = ''YES''" "strip ''Y'' = ''Y''"
  "strip ''no'' = ''no''" "strip ''yes '' = ''yes''" "strip ''   '' = []"
  by (simp_all add: strip_def isspace_def)

lemma strip_texts:
  "strip ''How do I improve my summary?'' = ''How do I improve my summary?''"
  "strip ''Which skills should I add?'' = ''Which skills should I add?''"
  "strip ''Jane Doe, software engineer'' = ''Jane Doe, software engineer''"
  by (simp_all add: strip_def isspace_def)

lemma demo_world_simps:
  "path_exists demo_world ''resume.pdf''"
  "extract_text demo_world p = Inr ''Jane Doe, software engineer''"
  "post demo_world 0 req = chat_reply ''Solid experience section.''"
  "post demo_world (Suc 0) req = chat_reply ''Open the summary with your strongest result.''"
  "post demo_world (Suc (Suc 0)) req = chat_reply ''List Python and SQL first.''"
  by (simp_all add: demo_world_def scripted_world_def)

lemma offline_world_simps:
  "path_exists offline_world ''resume.pdf''"
  "extract_text offline_world p = Inr ''Jane Doe, software engineer''"
  "post offline_world 0 req = RequestException ''Connection refused''"
  "post offline_world (Suc 0) req = chat_reply ''Start with a summary.''"
  by (simp_all add: offline_world_def scripted_world_def)

lemma py_str_JStr: "py_str w (JStr s) = s"
  by (simp add: py_str_def)

lemma handle_RequestException:
  "handle_outcome (RequestException e) = Inr (JStr (''Network or request error: '' @ e))"
  by (simp add: handle_outcome_def)

lemma demo_session_eq:
  "demo_session =
     after [Print ''\<newline>Extracted Resume Text Preview:\<newline>'',
            Print (preview ''Jane Doe, software engineer''),
            Print ''\<newline>Analyzing resume with the language model...\<newline>'',
            HttpPost (build_request local_llm (rendered_analysis ''Jane Doe, software engineer'')),
            Print ''Model Feedback:\<newline>'',
            Print (py_str demo_world (JStr ''Solid experience section.''))]
       (followup_loop demo_world local_llm (JStr ''Solid experience section.'') 1
          [''yes'', ''How do I improve my summary?'', ''yes'', ''Which skills should I add?'',
           ''no''])"
  unfolding demo_session_def local_llm_def
  by (rule run_analysis_reaches_loop)
    (simp_all add: strip_texts demo_world_simps handle_chat_reply)

lemma demo_loop_round1:
  "followup_loop demo_world local_llm (JStr ''Solid experience section.'') (Suc 0)
     [''yes'', ''How do I improve my summary?'', ''yes'', ''Which skills should I add?'', ''no''] =
   after [Input ask_followup, Input ask_question,
          Print ''\<newline>Processing your follow-up question...\<newline>'',
          HttpPost (build_request local_llm
            (rendered_followup (py_str demo_world (JStr ''Solid experience section.''))
               (strip ''How do I improve my summary?''))),
          Print ''Follow-Up Advice:\<newline>'',
          Print (py_str demo_world (JStr ''Open the summary with your strongest result.''))]
     (followup_loop demo_world local_llm (JStr ''Solid experience section.'') (Suc (Suc 0))
        [''yes'', ''Which skills should I add?'', ''no''])"
  by (rule followup_round)
    (simp_all add: strip_answers lower_answers strip_texts demo_world_simps handle_chat_reply)

lemma demo_loop_round2:
  "followup_loop demo_world local_llm (JStr ''Solid experience section.'') (Suc (Suc 0))
     [''yes'', ''Which skills should I add?'', ''no''] =
   after [Input ask_followup, Input ask_question,
          Print ''\<newline>Processing your follow-up question...\<newline>'',
          HttpPost (build_request local_llm
            (rendered_followup (py_str demo_world (JStr ''Solid experience section.''))
               (strip ''Which skills should I add?''))),
          Print ''Follow-Up Advice:\<newline>'',
          Print (py_str demo_world (JStr ''List Python and SQL first.''))]
     (followup_loop demo_world local_llm (JStr ''Solid experience section.'')
        (Suc (Suc (Suc 0))) [''no''])"
  by (rule followup_round)
    (simp_all add: strip_answers lower_answers strip_texts demo_world_simps handle_chat_reply)

lemma demo_loop_end:
  "followup_loop demo_world local_llm (JStr ''Solid experience section.'') (Suc (Suc (Suc 0)))
     [''no''] =
   \<lparr>events = [Input ask_followup], stored = Some (JStr ''Solid experience section.''),
    raised = None\<rparr>"
  by (rule followup_stop) (simp add: strip_answers lower_answers)

lemma demo_session_prompts:
  "prompts_sent demo_session =
     [rendered_analysis ''Jane Doe, software engineer'',
      rendered_followup ''Solid experience section.'' ''How do I improve my summary?'',
      rendered_followup ''Solid experience section.'' ''Which skills should I add?'']"
  unfolding demo_session_eq One_nat_def demo_loop_round1 demo_loop_round2 demo_loop_end
  by (simp add: prompts_sent_def events_after user_prompt_build_request py_str_JStr strip_texts)

lemma demo_session_stored: "stored demo_session = Some (JStr ''Solid experience section.'')"
  unfolding demo_session_eq stored_after by (rule followup_loop_stored)

lemma demo_reply_printed:
  "Print ''Open the summary with your strongest result.'' \<in> set (events demo_session)"
  unfolding demo_session_eq One_nat_def demo_loop_round1
  by (simp add: events_after py_str_JStr)

lemma not_embedded:
  "\<not> sublist ''Open the summary with your strongest result.''
       (rendered_followup ''Solid experience section.'' ''Which skills should I add?'')"
  by (simp add: rendered_followup_def sublist_Cons_right)

text \<open>
  C1 (as amended): a follow-up round renders the follow-up template with the stored
  feedback and the question just entered, stripped, posts it, prints the reply and goes
  on with the stored feedback unchanged: the reply is not stored. So the stored feedback
  stays the reply to the initial analysis, and every follow-up prompt of a session is
  built from it and embeds it verbatim.
\<close>

theorem followup_rounds_keep_feedback:
  "(lower (strip a) \<in> set [''yes'', ''y''] \<and> strip q \<noteq> [] \<and>
    handle_outcome (post w k (build_request llm
      (rendered_followup (py_str w fb) (strip q)))) = Inr r \<longrightarrow>
      buildFollowupPrompt (py_str w fb) (strip q) =
        Inr (rendered_followup (py_str w fb) (strip q)) \<and>
      followup_loop w llm fb k (a # q # rest) =
        after [Input ask_followup, Input ask_question,
               Print ''\<newline>Processing your follow-up question...\<newline>'',
               HttpPost (build_request llm (rendered_followup (py_str w fb) (strip q))),
               Print ''Follow-Up Advice:\<newline>'',
               Print (py_str w r)]
          (followup_loop w llm fb (Suc k) rest)) \<and>
   stored (followup_loop w llm fb k stdin) = Some fb \<and>
   (\<forall>p \<in> set (prompts_sent (followup_loop w llm fb k stdin)).
      (\<exists>q'. buildFollowupPrompt (py_str w fb) q' = Inr p) \<and> sublist (py_str w fb) p)"
proof (intro conjI impI ballI)
  assume h: "lower (strip a) \<in> set [''yes'', ''y''] \<and> strip q \<noteq> [] \<and>
    handle_outcome (post w k (build_request llm
      (rendered_followup (py_str w fb) (strip q)))) = Inr r"
  show "buildFollowupPrompt (py_str w fb) (strip q) =
        Inr (rendered_followup (py_str w fb) (strip q))"
    by (rule buildFollowupPrompt_eq)
  from h show "followup_loop w llm fb k (a # q # rest) =
        after [Input ask_followup, Input ask_question,
               Print ''\<newline>Processing your follow-up question...\<newline>'',
               HttpPost (build_request llm (rendered_followup (py_str w fb) (strip q))),
               Print ''Follow-Up Advice:\<newline>'',
               Print (py_str w r)]
          (followup_loop w llm fb (Suc k) rest)"
    by (intro followup_round) simp_all
next
  show "stored (followup_loop w llm fb k stdin) = Some fb"
    by (rule followup_loop_stored)
next
  fix p
  assume "p \<in> set (prompts_sent (followup_loop w llm fb k stdin))"
  then obtain q' where p: "p = rendered_followup (py_str w fb) q'"
    using followup_loop_prompts by blast
  then show "\<exists>q'. buildFollowupPrompt (py_str w fb) q' = Inr p"
    using buildFollowupPrompt_eq by blast
  from p show "sublist (py_str w fb) p"
    by (simp add: rendered_followup_embeds)
qed

theorem followup_rounds_keep_feedback_witness:
  "followup_loop demo_world local_llm (JStr ''Solid experience section.'') (Suc 0)
     [''yes'', ''How do I improve my summary?'', ''yes'', ''Which skills should I add?'', ''no''] =
   after [Input ask_followup, Input ask_question,
          Print ''\<newline>Processing your follow-up question...\<newline>'',
          HttpPost (build_request local_llm
            (rendered_followup ''Solid experience section.'' ''How do I improve my summary?'')),
          Print ''Follow-Up Advice:\<newline>'',
          Print ''Open the summary with your strongest result.'']
     (followup_loop demo_world local_llm (JStr ''Solid experience section.'') (Suc (Suc 0))
        [''yes'', ''Which skills should I add?'', ''no'']) \<and>
   stored (followup_loop demo_world local_llm (JStr ''Solid experience section.'') (Suc 0)
     [''yes'', ''How do I improve my summary?'', ''yes'', ''Which skills should I add?'', ''no'']) =
     Some (JStr ''Solid experience section.'')"
  using followup_rounds_keep_feedback
    [of "''yes''" "''How do I improve my summary?''" demo_world "Suc 0" local_llm
        "JStr ''Solid experience section.''"
        "JStr ''Open the summary with your strongest result.''"
        "[''yes'', ''Which skills should I add?'', ''no'']"
        "[''yes'', ''How do I improve my summary?'', ''yes'', ''Which skills should I add?'', ''no'']"]
  by (simp add: strip_answers lower_answers strip_texts demo_world_simps handle_chat_reply
        py_str_JStr stored_after followup_loop_stored del: followup_loop.simps)

text \<open>
  C1 (as stated) fails in the second follow-up round of a session: the reply of the
  first round was printed, but the prompt of the second round is built from the reply
  to the initial analysis, which is still the stored feedback at the end, and the reply
  of the first round does not occur in it.
\<close>

theorem later_round_counterexample:
  "Print ''Open the summary with your strongest result.'' \<in> set (events demo_session) \<and>
   stored demo_session = Some (JStr ''Solid experience section.'') \<and>
   prompts_sent demo_session ! 2 =
     rendered_followup ''Solid experience section.'' ''Which skills should I add?'' \<and>
   \<not> sublist ''Open the summary with your strongest result.'' (prompts_sent demo_session ! 2)"
  by (simp add: demo_session_prompts demo_session_stored not_embedded demo_reply_printed)

text \<open>
  C8 (as amended): the answer is stripped of surrounding whitespace and lower-cased
  before it is compared. When the result is neither "yes" nor "y", the loop ends at
  once: nothing is posted and nothing is raised. When it is "yes" or "y" and the
  question strips to the empty string, the loop ends with "No question entered. Exiting
  follow-up." and nothing is posted. When it is "yes" or "y" and the question is not
  blank, the round goes on to post the follow-up prompt.
\<close>

theorem followup_choice:
  "(lower (strip a) \<notin> set [''yes'', ''y''] \<longrightarrow>
      followup_loop w llm fb k (a # rest) =
        \<lparr>events = [Input ask_followup], stored = Some fb, raised = None\<rparr>) \<and>
   (lower (strip a) \<in> set [''yes'', ''y''] \<and> strip q = [] \<longrightarrow>
      followup_loop w llm fb k (a # q # rest) =
        \<lparr>events = [Input ask_followup, Input ask_question,
                   Print ''No question entered. Exiting follow-up.''],
         stored = Some fb, raised = None\<rparr>) \<and>
   (lower (strip a) \<in> set [''yes'', ''y''] \<and> strip q \<noteq> [] \<longrightarrow>
      take 4 (events (followup_loop w llm fb k (a # q # rest))) =
        [Input ask_followup, Input ask_question,
         Print ''\<newline>Processing your follow-up question...\<newline>'',
         HttpPost (build_request llm (rendered_followup (py_str w fb) (strip q)))])"
proof (intro conjI impI)
  assume "lower (strip a) \<notin> set [''yes'', ''y'']"
  then show "followup_loop w llm fb k (a # rest) =
        \<lparr>events = [Input ask_followup], stored = Some fb, raised = None\<rparr>"
    by (rule followup_stop)
next
  assume "lower (strip a) \<in> set [''yes'', ''y''] \<and> strip q = []"
  then show "followup_loop w llm fb k (a # q # rest) =
        \<lparr>events = [Input ask_followup, Input ask_question,
                   Print ''No question entered. Exiting follow-up.''],
         stored = Some fb, raised = None\<rparr>"
    by simp
next
  assume h: "lower (strip a) \<in> set [''yes'', ''y''] \<and> strip q \<noteq> []"
  show "take 4 (events (followup_loop w llm fb k (a # q # rest))) =
        [Input ask_followup, Input ask_question,
         Print ''\<newline>Processing your follow-up question...\<newline>'',
         HttpPost (build_request llm (rendered_followup (py_str w fb) (strip q)))]"
    using h
    by (cases "handle_outcome (post w k (build_request llm
          (rendered_followup (py_str w fb) (strip q))))")
      (simp_all add: CustomLLM_call_eq events_after buildFollowupPrompt_eq)
qed

theorem followup_choice_witness:
  "followup_loop demo_world local_llm (JStr ''Solid experience section.'') (Suc 0)
     [''no'', ''yes''] =
     \<lparr>events = [Input ask_followup], stored = Some (JStr ''Solid experience section.''),
      raised = None\<rparr> \<and>
   followup_loop demo_world local_llm (JStr ''Solid experience section.'') (Suc 0)
     [''YES'', ''   '', ''yes''] =
     \<lparr>events = [Input ask_followup, Input ask_question,
                Print ''No question entered. Exiting follow-up.''],
      stored = Some (JStr ''Solid experience section.''), raised = None\<rparr> \<and>
   take 4 (events (followup_loop demo_world local_llm (JStr ''Solid experience section.'')
     (Suc 0) [''Y'', ''How do I improve my summary?'', ''no''])) =
     [Input ask_followup, Input ask_question,
      Print ''\<newline>Processing your follow-up question...\<newline>'',
      HttpPost (build_request local_llm
        (rendered_followup ''Solid experience section.'' ''How do I improve my summary?''))]"
  using followup_choice
    [of "''no''" demo_world local_llm "JStr ''Solid experience section.''" "Suc 0" "[''yes'']"]
    followup_choice
    [of "''YES''" demo_world local_llm "JStr ''Solid experience section.''" "Suc 0"
        "[''yes'']" "''   ''"]
    followup_choice
    [of "''Y''" demo_world local_llm "JStr ''Solid experience section.''" "Suc 0"
        "[''no'']" "''How do I improve my summary?''"]
  by (simp add: strip_answers lower_answers strip_texts py_str_JStr del: followup_loop.simps)

text \<open>
  C8 (as stated) fails at an answer with surrounding whitespace: "yes " is not "yes" or
  "y" in any letter case, and the session goes on to a follow-up round.
\<close>

theorem padded_yes_counterexample:
  "lower ''yes '' \<notin> set [''yes'', ''y''] \<and>
   take 4 (events (followup_loop demo_world local_llm (JStr ''Solid experience section.'')
     (Suc 0) [''yes '', ''How do I improve my summary?'', ''no''])) =
     [Input ask_followup, Input ask_question,
      Print ''\<newline>Processing your follow-up question...\<newline>'',
      HttpPost (build_request local_llm
        (rendered_followup ''Solid experience section.'' ''How do I improve my summary?''))]"
proof -
  have "followup_loop demo_world local_llm (JStr ''Solid experience section.'') (Suc 0)
          [''yes '', ''How do I improve my summary?'', ''no''] =
        after [Input ask_followup, Input ask_question,
               Print ''\<newline>Processing your follow-up question...\<newline>'',
               HttpPost (build_request local_llm
                 (rendered_followup (py_str demo_world (JStr ''Solid experience section.''))
                    (strip ''How do I improve my summary?''))),
               Print ''Follow-Up Advice:\<newline>'',
               Print (py_str demo_world (JStr ''Open the summary with your strongest result.''))]
          (followup_loop demo_world local_llm (JStr ''Solid experience section.'')
             (Suc (Suc 0)) [''no''])"
    by (rule followup_round)
      (simp_all add: strip_answers lower_answers strip_texts demo_world_simps handle_chat_reply)
  then show ?thesis
    by (simp add: events_after lower_answers py_str_JStr strip_texts del: followup_loop.simps)
qed

subsection \<open>An initial request that fails\<close>

lemma offline_session_eq:
  "offline_session =
     after [Print ''\<newline>Extracted Resume Text Preview:\<newline>'',
            Print (preview ''Jane Doe, software engineer''),
            Print ''\<newline>Analyzing resume with the language model...\<newline>'',
            HttpPost (build_request local_llm (rendered_analysis ''Jane Doe, software engineer'')),
            Print ''Model Feedback:\<newline>'',
            Print (py_str offline_world (JStr ''Network or request error: Connection refused''))]
       (followup_loop offline_world local_llm
          (JStr ''Network or request error: Connection refused'') 1
          [''yes'', ''How do I improve my summary?'', ''no''])"
  unfolding offline_session_def local_llm_def
  by (rule run_analysis_reaches_loop)
    (simp_all add: strip_texts offline_world_simps handle_RequestException)

lemma offline_loop_round1:
  "followup_loop offline_world local_llm
     (JStr ''Network or request error: Connection refused'') (Suc 0)
     [''yes'', ''How do I improve my summary?'', ''no''] =
   after [Input ask_followup, Input ask_question,
          Print ''\<newline>Processing your follow-up question...\<newline>'',
          HttpPost (build_request local_llm
            (rendered_followup
               (py_str offline_world (JStr ''Network or request error: Connection refused''))
               (strip ''How do I improve my summary?''))),
          Print ''Follow-Up Advice:\<newline>'',
          Print (py_str offline_world (JStr ''Start with a summary.''))]
     (followup_loop offline_world local_llm
        (JStr ''Network or request error: Connection refused'') (Suc (Suc 0)) [''no''])"
  by (rule followup_round)
    (simp_all add: strip_answers lower_answers strip_texts offline_world_simps handle_chat_reply)

lemma offline_loop_end:
  "followup_loop offline_world local_llm
     (JStr ''Network or request error: Connection refused'') (Suc (Suc 0)) [''no''] =
   \<lparr>events = [Input ask_followup],
    stored = Some (JStr ''Network or request error: Connection refused''), raised = None\<rparr>"
  by (rule followup_stop) (simp add: strip_answers lower_answers)

lemma offline_session_prompts:
  "prompts_sent offline_session =
     [rendered_analysis ''Jane Doe, software engineer'',
      rendered_followup ''Network or request error: Connection refused''
        ''How do I improve my summary?'']"
  unfolding offline_session_eq One_nat_def offline_loop_round1 offline_loop_end
  by (simp add: prompts_sent_def events_after user_prompt_build_request py_str_JStr strip_texts)

lemma offline_session_stored:
  "stored offline_session = Some (JStr ''Network or request error: Connection refused'')"
  unfolding offline_session_eq stored_after by (rule followup_loop_stored)

text \<open>
  C2 (as amended): the stored feedback is what the initial call of \<open>_call\<close> returned,
  whether the reply of the model or an error string, and no follow-up round changes it,
  whether its request succeeds or fails: it is still stored at the end of the run, and
  every follow-up prompt is built from it and embeds it. The session does not crash
  after the initial call returns: it prints the result and asks for the follow-up
  choice. In particular, when the initial request fails (the post raises, or the status
  is from 400 to 599), the result that is printed, stored and embedded is the string
  "Network or request error: ..." with the text of the exception.
\<close>

theorem initial_result_becomes_feedback:
  assumes "path_exists w pdf_path" and "extract_text w pdf_path = Inr t" and "strip t \<noteq> []"
    and "snd (CustomLLM_call w 0 \<lparr>api_url = u, model_name = m, llm_temperature = 7 / 10\<rparr>
           (rendered_analysis t)) = Inr fb"
  shows "run_analysis w stdin u m pdf_path =
           after [Print ''\<newline>Extracted Resume Text Preview:\<newline>'',
                  Print (preview t),
                  Print ''\<newline>Analyzing resume with the language model...\<newline>'',
                  HttpPost (build_request
                    \<lparr>api_url = u, model_name = m, llm_temperature = 7 / 10\<rparr>
                    (rendered_analysis t)),
                  Print ''Model Feedback:\<newline>'',
                  Print (py_str w fb)]
             (followup_loop w \<lparr>api_url = u, model_name = m, llm_temperature = 7 / 10\<rparr>
                fb 1 stdin) \<and>
         (\<exists>es. events (followup_loop w
                \<lparr>api_url = u, model_name = m, llm_temperature = 7 / 10\<rparr> fb 1 stdin) =
               Input ask_followup # es) \<and>
         stored (run_analysis w stdin u m pdf_path) = Some fb \<and>
         (\<forall>p \<in> set (tl (prompts_sent (run_analysis w stdin u m pdf_path))).
            (\<exists>q. p = rendered_followup (py_str w fb) q) \<and> sublist (py_str w fb) p) \<and>
         (post w 0 (build_request \<lparr>api_url = u, model_name = m, llm_temperature = 7 / 10\<rparr>
            (rendered_analysis t)) = RequestException e \<longrightarrow>
            fb = JStr (''Network or request error: '' @ e) \<and>
            py_str w fb = ''Network or request error: '' @ e) \<and>
         (post w 0 (build_request \<lparr>api_url = u, model_name = m, llm_temperature = 7 / 10\<rparr>
            (rendered_analysis t)) = Response r \<and>
          400 \<le> status_code r \<and> status_code r < 600 \<longrightarrow>
            (\<exists>e'. raise_for_status r = Some e' \<and>
                  fb = JStr (''Network or request error: '' @ e') \<and>
                  py_str w fb = ''Network or request error: '' @ e'))"
proof -
  let ?llm = "\<lparr>api_url = u, model_name = m, llm_temperature = 7 / 10\<rparr>"
  have out: "handle_outcome (post w 0 (build_request ?llm (rendered_analysis t))) = Inr fb"
    using assms(4) by (simp add: CustomLLM_call_eq)
  have run: "run_analysis w stdin u m pdf_path =
           after [Print ''\<newline>Extracted Resume Text Preview:\<newline>'',
                  Print (preview t),
                  Print ''\<newline>Analyzing resume with the language model...\<newline>'',
                  HttpPost (build_request ?llm (rendered_analysis t)),
                  Print ''Model Feedback:\<newline>'',
                  Print (py_str w fb)]
             (followup_loop w ?llm fb 1 stdin)"
    using assms(1-3) out by (rule run_analysis_reaches_loop)
  have prompts: "tl (prompts_sent (run_analysis w stdin u m pdf_path)) =
      prompts_sent (followup_loop w ?llm fb 1 stdin)"
    unfolding run by (simp add: prompts_sent_after user_prompt_build_request)
  have built: "(\<exists>q. p = rendered_followup (py_str w fb) q) \<and> sublist (py_str w fb) p"
    if "p \<in> set (prompts_sent (followup_loop w ?llm fb 1 stdin))" for p
  proof -
    from that obtain q where q: "p = rendered_followup (py_str w fb) q"
      using followup_loop_prompts by blast
    then have "sublist (py_str w fb) p"
      by (simp add: rendered_followup_embeds)
    with q show ?thesis by blast
  qed
  have st: "stored (run_analysis w stdin u m pdf_path) = Some fb"
    unfolding run stored_after by (rule followup_loop_stored)
  have refused: "fb = JStr (''Network or request error: '' @ e) \<and>
      py_str w fb = ''Network or request error: '' @ e"
    if "post w 0 (build_request ?llm (rendered_analysis t)) = RequestException e"
  proof -
    from out that have "JStr (''Network or request error: '' @ e) = fb"
      by (simp only: handle_RequestException sum.inject)
    then have fb: "fb = JStr (''Network or request error: '' @ e)"
      by (rule sym)
    then have "py_str w fb = ''Network or request error: '' @ e"
      by (simp only: py_str_JStr)
    with fb show ?thesis by blast
  qed
  have status: "\<exists>e'. raise_for_status r = Some e' \<and>
      fb = JStr (''Network or request error: '' @ e') \<and>
      py_str w fb = ''Network or request error: '' @ e'"
    if "post w 0 (build_request ?llm (rendered_analysis t)) = Response r \<and>
        400 \<le> status_code r \<and> status_code r < 600"
  proof -
    from that obtain e' where e': "raise_for_status r = Some e'"
      by (cases "status_code r < 500")
        (simp_all add: raise_for_status_def del: decimal.simps)
    from out that e' have "JStr (''Network or request error: '' @ e') = fb"
      by (simp add: handle_outcome_def del: decimal.simps)
    then have fb: "fb = JStr (''Network or request error: '' @ e')"
      by (rule sym)
    then have "py_str w fb = ''Network or request error: '' @ e'"
      by (simp only: py_str_JStr)
    with e' fb show ?thesis by blast
  qed
  show ?thesis
    using run st followup_loop_first_event [of w ?llm fb 1 stdin] built refused status
    unfolding prompts by blast
qed

theorem initial_result_becomes_feedback_witness:
  "stored (run_analysis offline_world [''yes'', ''How do I improve my summary?'', ''no'']
     ''http://localhost:1234/v1/chat/completions'' ''mistral-nemo-instruct-2407''
     ''resume.pdf'') = Some (JStr ''Network or request error: Connection refused'') \<and>
   stored (run_analysis demo_world [''yes'', ''How do I improve my summary?'', ''no'']
     ''http://localhost:1234/v1/chat/completions'' ''mistral-nemo-instruct-2407''
     ''resume.pdf'') = Some (JStr ''Solid experience section.'')"
  using initial_result_becomes_feedback
    [of offline_world "''resume.pdf''" "''Jane Doe, software engineer''"
        "''http://localhost:1234/v1/chat/completions''" "''mistral-nemo-instruct-2407''"
        "JStr ''Network or request error: Connection refused''"
        "[''yes'', ''How do I improve my summary?'', ''no'']"]
    initial_result_becomes_feedback
    [of demo_world "''resume.pdf''" "''Jane Doe, software engineer''"
        "''http://localhost:1234/v1/chat/completions''" "''mistral-nemo-instruct-2407''"
        "JStr ''Solid experience section.''"
        "[''yes'', ''How do I improve my summary?'', ''no'']"]
  by (simp add: CustomLLM_call_eq offline_world_simps demo_world_simps
        handle_RequestException handle_chat_reply strip_texts stored_after
        followup_loop_stored del: followup_loop.simps decimal.simps)

text \<open>
  C2 (as stated) fails when the initial request is refused: the error string is stored
  as feedback, it is not left unset, and the prompt of the follow-up round embeds it.
\<close>

theorem stored_error_counterexample:
  "stored offline_session = Some (JStr ''Network or request error: Connection refused'') \<and>
   prompts_sent offline_session ! 1 =
     rendered_followup ''Network or request error: Connection refused''
       ''How do I improve my summary?'' \<and>
   sublist ''Network or request error: Connection refused'' (prompts_sent offline_session ! 1)"
  by (simp add: offline_session_prompts offline_session_stored rendered_followup_embeds)

end
